theory Spec2Isabelle
  imports Main "HOL-Library.Word"
begin

unbundle bit_operations_syntax

section \<open>Values shared by the whole package\<close>

text \<open>
  \<^verbatim>\<open>windows.HWND\<close>, \<open>windows.Handle\<close> and \<open>uintptr\<close> are 64-bit words, message
  identifiers are \<open>uint32\<close>; an \<open>int32\<close> is a 32-bit word too, with -1 the word of
  all ones. The constants are those of \<^verbatim>\<open>window.go\<close>, lines 16-30.
\<close>

type_synonym uintptr = "64 word"
type_synonym HWND = "64 word"
type_synonym Handle = "64 word"
type_synonym uint32 = "32 word"
type_synonym int32 = "32 word"

definition WM_DESTROY :: uint32 where "WM_DESTROY = 0x0002"
definition WM_NCDESTROY :: uint32 where "WM_NCDESTROY = 0x0082"
definition WM_CLOSE :: uint32 where "WM_CLOSE = 0x0010"
definition WM_COMMAND :: uint32 where "WM_COMMAND = 0x0111"
definition WM_USER :: uint32 where "WM_USER = 0x0400"
definition IDOK :: int32 where "IDOK = 1"
definition IDCANCEL :: int32 where "IDCANCEL = 2"

text \<open>
  A Go \<open>error\<close> is \<open>error option\<close>, \<open>None\<close> being \<open>nil\<close>. \<open>Errno\<close> is a
  \<open>syscall.Errno\<close> read from the thread's last-error code, \<open>EINVAL\<close> is
  \<open>syscall.EINVAL\<close>, \<open>ErrorString\<close> the value of \<open>errors.New\<close>, and \<open>Wrapped\<close> the
  value of \<open>fmt.Errorf("...: %w", err)\<close>, which is not nil even when \<open>err\<close> is.
\<close>

datatype error = Errno uint32 | EINVAL | ErrorString string | Wrapped string "error option"

text \<open>
  A \<open>WndProc\<close> value is a Go function value. Function values cannot be compared or
  inspected, only called and tested against nil, so a non-nil one is an identifier of the
  code it runs: \<open>GoFunc n\<close> is a procedure supplied by a caller of the package (what it
  does is given by a table of procedures, a parameter of the model), \<open>TwoTextProc e1 e2\<close>
  is the closure that \<open>TwoTextInputDialog\<close> builds around the handles of its two edit
  controls. A possibly nil \<open>WndProc\<close> is a \<open>WndProc option\<close>.
\<close>

datatype WndProc = GoFunc nat | TwoTextProc HWND HWND

section \<open>The operating system, as far as the package observes it\<close>

text \<open>
  The package is a set of wrappers around \<^verbatim>\<open>user32.dll\<close> and \<^verbatim>\<open>kernel32.dll\<close>. The
  model of the system keeps what the wrappers of the dispatch core read back:

  \<^item> the module handle that \<open>GetModuleHandleW(0)\<close> returns (0 on failure);
  \<^item> the thread's last-error code, set by every failing call;
  \<^item> the registered window classes with the procedure each was registered with
    (\<open>LpfnWndProc\<close>): the trampoline \<open>globalWndProc\<close>, the dialog trampoline
    \<open>dialogGlobalWndProc\<close>, or a procedure that is no Go code of this package
    (the system's \<open>STATIC\<close>, \<open>EDIT\<close> and \<open>BUTTON\<close> classes, \<open>DefWindowProcW\<close>);
  \<^item> the live windows with their class, parent and text;
  \<^item> the handles the system can still hand out (none left: creation fails);
  \<^item> the tick counter read by \<open>GetTickCount\<close>;
  \<^item> the messages already posted to the thread's queue, and the feed of what will
    arrive later: each entry carries the tick at which \<open>GetMessageW\<close> returns with it;
  \<^item> the font handle that \<open>CreateFontW\<close> returns (0 on failure);
  \<^item> the results of the system's default window procedure.
\<close>

record MSG =
  HWnd :: HWND
  Message :: uint32
  WParam :: uintptr
  LParam :: uintptr

datatype class_proc = GlobalWndProc | DialogGlobalWndProc | SystemWndProc

record window =
  wnd_class :: string
  wnd_parent :: HWND
  wnd_text :: string

datatype retrieval = Arrives MSG | Quits uintptr | Fails uint32

record os_state =
  os_module :: uintptr
  os_last_error :: uint32
  os_classes :: "(string \<times> class_proc) list"
  os_windows :: "HWND \<rightharpoonup> window"
  os_free :: "HWND list"
  os_tick :: uint32
  os_posted :: "MSG list"
  os_feed :: "(uint32 \<times> retrieval) list"
  os_font :: uintptr
  os_default :: "HWND \<Rightarrow> uint32 \<Rightarrow> uintptr \<Rightarrow> uintptr \<Rightarrow> uintptr"

section \<open>The handle registry (\<^verbatim>\<open>window.go\<close>, lines 36-72)\<close>

text \<open>
  The package-level variables: the main registry \<open>wndProcByHWND\<close>, the table of the
  dialogs \<open>dialogWndProcs\<close> (\<^verbatim>\<open>part_003\<close>, line 227), and the system. Both maps are
  written only by \<open>setWndProc\<close>, \<open>deleteWndProc\<close> and \<open>setDialogWndProc\<close>, none of
  which stores nil, so an entry is a non-nil \<open>WndProc\<close>. The mutexes guard each operation
  as a whole; the model is of one thread, where they change nothing.
\<close>

record globals =
  wndProcByHWND :: "HWND \<rightharpoonup> WndProc"
  dialogWndProcs :: "HWND \<rightharpoonup> WndProc"
  os :: os_state

definition setWndProc :: "HWND \<Rightarrow> WndProc option \<Rightarrow> 'a globals_scheme \<Rightarrow> 'a globals_scheme" where
  "setWndProc hwnd proc st =
     (case proc of
        None \<Rightarrow> st\<lparr>wndProcByHWND := (wndProcByHWND st)(hwnd := None)\<rparr>
      | Some p \<Rightarrow> st\<lparr>wndProcByHWND := (wndProcByHWND st)(hwnd \<mapsto> p)\<rparr>)"

definition deleteWndProc :: "HWND \<Rightarrow> 'a globals_scheme \<Rightarrow> 'a globals_scheme" where
  "deleteWndProc hwnd st = st\<lparr>wndProcByHWND := (wndProcByHWND st)(hwnd := None)\<rparr>"

text \<open>\<open>getWndProc\<close> returns \<open>(proc, ok)\<close>: \<open>Some proc\<close> when \<open>ok\<close>, \<open>None\<close> otherwise.\<close>

definition getWndProc :: "HWND \<Rightarrow> 'a globals_scheme \<Rightarrow> WndProc option" where
  "getWndProc hwnd st = wndProcByHWND st hwnd"

section \<open>The global trampoline (\<^verbatim>\<open>window.go\<close>, lines 74-96)\<close>

text \<open>
  \<open>DefWindowProcW\<close> returns what the system's default procedure returns. Calling a
  \<open>WndProc\<close> runs arbitrary Go code: it may change every package variable and the
  system, and it may not return (a panic, a loop). The call is the parameter \<open>invoke\<close>,
  whose result \<open>None\<close> is a call that does not return.
\<close>

type_synonym 's invoke = "WndProc \<Rightarrow> HWND \<Rightarrow> uint32 \<Rightarrow> uintptr \<Rightarrow> uintptr \<Rightarrow> 's \<Rightarrow> (uintptr \<times> 's) option"

definition DefWindowProcW :: "HWND \<Rightarrow> uint32 \<Rightarrow> uintptr \<Rightarrow> uintptr \<Rightarrow> 'a globals_scheme \<Rightarrow> uintptr" where
  "DefWindowProcW hwnd msg wParam lParam st = os_default (os st) hwnd msg wParam lParam"

definition globalWndProc ::
  "'a globals_scheme invoke \<Rightarrow> HWND \<Rightarrow> uint32 \<Rightarrow> uintptr \<Rightarrow> uintptr \<Rightarrow> 'a globals_scheme
     \<Rightarrow> (uintptr \<times> 'a globals_scheme) option" where
  "globalWndProc invoke hwnd msg wParam lParam st =
     (case getWndProc hwnd st of
        Some proc \<Rightarrow>
          (case invoke proc hwnd msg wParam lParam st of
             None \<Rightarrow> None
           | Some (ret, st') \<Rightarrow>
               Some (ret, if msg = WM_NCDESTROY then deleteWndProc hwnd st' else st'))
      | None \<Rightarrow> Some (DefWindowProcW hwnd msg wParam lParam st, st))"

section \<open>Wrappers of the system calls (\<^verbatim>\<open>window.go\<close>)\<close>

text \<open>
  \<open>windows.GetLastError\<close> is nil when the last-error code is 0, an \<open>Errno\<close> otherwise.
\<close>

definition GetLastError :: "'a globals_scheme \<Rightarrow> error option" where
  "GetLastError st =
     (if os_last_error (os st) = 0 then None else Some (Errno (os_last_error (os st))))"

definition getModuleHandleCurrentProcess :: "'a globals_scheme \<Rightarrow> Handle \<times> error option" where
  "getModuleHandleCurrentProcess st =
     (let r1 = os_module (os st) in if r1 = 0 then (0, GetLastError st) else (r1, None))"

text \<open>
  \<open>windows.UTF16PtrFromString\<close> refuses a string with a NUL byte. Only the refusal
  matters here: the model passes the string itself where the code passes the pointer.
\<close>

definition UTF16PtrFromString :: "string \<Rightarrow> error option" where
  "UTF16PtrFromString s = (if CHR 0x00 \<in> set s then Some EINVAL else None)"

subsection \<open>Window classes (lines 98-143)\<close>

text \<open>
  Of \<open>WNDCLASSEXW\<close> the model keeps the size, the procedure and the class name. The
  system refuses a structure of the wrong size with code 87, a class name that is
  registered already with code 1410, and any class when its atoms (\<open>0xC000\<close> to
  \<open>0xFFFF\<close>) are used up with code 8; otherwise it registers the class and returns
  its atom.
  On a 64-bit system \<open>unsafe.Sizeof(WNDCLASSEXW{})\<close> is 80.
\<close>

record WNDCLASSEXW =
  CbSize :: uint32
  LpfnWndProc :: class_proc
  LpszClassName :: string

definition sys_RegisterClassExW :: "WNDCLASSEXW \<Rightarrow> os_state \<Rightarrow> uintptr \<times> os_state" where
  "sys_RegisterClassExW wcx s =
     (if CbSize wcx \<noteq> 80 then (0, s\<lparr>os_last_error := 87\<rparr>)
      else if map_of (os_classes s) (LpszClassName wcx) \<noteq> None
      then (0, s\<lparr>os_last_error := 1410\<rparr>)
      else if length (os_classes s) \<ge> 0x4000 then (0, s\<lparr>os_last_error := 8\<rparr>)
      else (of_nat (0xC000 + length (os_classes s)),
            s\<lparr>os_classes := os_classes s @ [(LpszClassName wcx, LpfnWndProc wcx)]\<rparr>))"

text \<open>\<open>wcx\<close> is a pointer: \<open>None\<close> is the nil pointer.\<close>

definition registerClassExW ::
  "WNDCLASSEXW option \<Rightarrow> 'a globals_scheme \<Rightarrow> (16 word \<times> error option) \<times> 'a globals_scheme" where
  "registerClassExW wcx st =
     (case wcx of
        None \<Rightarrow> ((0, Some (ErrorString ''registerClassExW: nil WNDCLASSEXW'')), st)
      | Some w \<Rightarrow>
          (let w' = (if CbSize w = 0 then w\<lparr>CbSize := 80\<rparr> else w);
               (r1, s') = sys_RegisterClassExW w' (os st);
               st' = st\<lparr>os := s'\<rparr>
           in if r1 \<noteq> 0 then ((ucast r1, None), st')
              else (case GetLastError st' of
                      Some (Errno errno) \<Rightarrow>
                        if errno = 1410 then ((1, None), st') else ((0, Some (Errno errno)), st')
                    | err \<Rightarrow> ((0, err), st'))))"

subsection \<open>Windows (lines 247-254, 440-487, 555-623)\<close>

text \<open>
  The system creates a window of a registered class, under a live parent (or none), when
  it has a handle left, and fails otherwise with codes 1407, 1400 and 1158. The styles,
  the geometry, the menu or control identifier, the instance and the creation parameter
  of \<open>CreateWindowExW\<close> select no branch of the code and are left out.
\<close>

definition sys_CreateWindowExW :: "string \<Rightarrow> string \<Rightarrow> HWND \<Rightarrow> os_state \<Rightarrow> uintptr \<times> os_state" where
  "sys_CreateWindowExW className windowName parent s =
     (if map_of (os_classes s) className = None then (0, s\<lparr>os_last_error := 1407\<rparr>)
      else if parent \<noteq> 0 \<and> os_windows s parent = None then (0, s\<lparr>os_last_error := 1400\<rparr>)
      else (case os_free s of
              [] \<Rightarrow> (0, s\<lparr>os_last_error := 1158\<rparr>)
            | h # hs \<Rightarrow>
                if h = 0 then (0, s\<lparr>os_last_error := 1158\<rparr>)
                else (h, s\<lparr>os_free := hs,
                           os_windows := (os_windows s)(h \<mapsto>
                             \<lparr>wnd_class = className, wnd_parent = parent, wnd_text = windowName\<rparr>)\<rparr>)))"

definition CreateWindowExW ::
  "string \<Rightarrow> string \<Rightarrow> HWND \<Rightarrow> 'a globals_scheme \<Rightarrow> (HWND \<times> error option) \<times> 'a globals_scheme" where
  "CreateWindowExW className windowName parent st =
     (case UTF16PtrFromString className of
        Some err \<Rightarrow> ((0, Some err), st)
      | None \<Rightarrow>
          (case UTF16PtrFromString windowName of
             Some err \<Rightarrow> ((0, Some err), st)
           | None \<Rightarrow>
               (let (r1, s') = sys_CreateWindowExW className windowName parent (os st);
                    st' = st\<lparr>os := s'\<rparr>
                in if r1 = 0 then ((0, GetLastError st'), st') else ((r1, None), st'))))"

text \<open>
  \<open>GetWindowTextW\<close> copies at most 255 characters into its buffer of 256, and reports
  an error when the system returns length 0.
\<close>

definition GetWindowTextW :: "HWND \<Rightarrow> 'a globals_scheme \<Rightarrow> (string \<times> error option) \<times> 'a globals_scheme" where
  "GetWindowTextW hwnd st =
     (case os_windows (os st) hwnd of
        None \<Rightarrow>
          (let st' = st\<lparr>os := (os st)\<lparr>os_last_error := 1400\<rparr>\<rparr> in (([], GetLastError st'), st'))
      | Some w \<Rightarrow>
          (let buf = take 255 (wnd_text w)
           in if length buf = 0 then (([], GetLastError st), st) else ((buf, None), st)))"

definition PostMessageW ::
  "HWND \<Rightarrow> uint32 \<Rightarrow> uintptr \<Rightarrow> uintptr \<Rightarrow> 'a globals_scheme \<Rightarrow> error option \<times> 'a globals_scheme" where
  "PostMessageW hwnd msg wParam lParam st =
     (case os_windows (os st) hwnd of
        None \<Rightarrow> (let st' = st\<lparr>os := (os st)\<lparr>os_last_error := 1400\<rparr>\<rparr> in (GetLastError st', st'))
      | Some w \<Rightarrow>
          (None, st\<lparr>os := (os st)\<lparr>os_posted := os_posted (os st) @
             [\<lparr>HWnd = hwnd, Message = msg, WParam = wParam, LParam = lParam\<rparr>]\<rparr>\<rparr>))"

definition IsWindowW :: "HWND \<Rightarrow> 'a globals_scheme \<Rightarrow> bool" where
  "IsWindowW hwnd st = (os_windows (os st) hwnd \<noteq> None)"

definition GetTickCount :: "'a globals_scheme \<Rightarrow> uint32" where
  "GetTickCount st = os_tick (os st)"

text \<open>
  \<open>ShowWindowW\<close>, \<open>SetFocus\<close> and \<open>SetWindowFontW\<close> change what is on the screen. The
  messages the system sends on their behalf go to controls of the system's classes, or to
  the dialog window, where they find the default branch of its procedure: no variable of
  the package changes.
\<close>

definition ShowWindowW :: "HWND \<Rightarrow> int32 \<Rightarrow> 'a globals_scheme \<Rightarrow> 'a globals_scheme" where
  "ShowWindowW hwnd cmdShow st = st"

definition SetFocus :: "HWND \<Rightarrow> 'a globals_scheme \<Rightarrow> 'a globals_scheme" where
  "SetFocus hwnd st = st"

definition CreateFontW :: "'a globals_scheme \<Rightarrow> Handle \<times> error option" where
  "CreateFontW st =
     (let r1 = os_font (os st)
      in if r1 = 0 then (0, Some (ErrorString ''CreateFontW failed'')) else (r1, None))"

definition SetWindowFontW :: "HWND \<Rightarrow> Handle \<Rightarrow> bool \<Rightarrow> 'a globals_scheme \<Rightarrow> 'a globals_scheme" where
  "SetWindowFontW hwnd hFont redraw st = st"

subsection \<open>The message queue (lines 197-245)\<close>

text \<open>
  The system's \<open>GetMessageW\<close> takes the oldest posted message, or else waits for the next
  entry of the feed: a message (result 1, the message stored through the pointer), the
  quit message (result 0, the exit code in \<open>WParam\<close>) or a failure (result -1, the code
  left as last error, the \<open>MSG\<close> untouched). With nothing posted and an empty feed the call
  never returns. The window and filter arguments are 0 at both call sites.
\<close>

definition sys_GetMessageW :: "MSG \<Rightarrow> os_state \<Rightarrow> ((uintptr \<times> MSG) \<times> os_state) option" where
  "sys_GetMessageW msg s =
     (case os_posted s of
        m # ms \<Rightarrow> Some ((1, m), s\<lparr>os_posted := ms\<rparr>)
      | [] \<Rightarrow>
          (case os_feed s of
             [] \<Rightarrow> None
           | (t, ev) # rest \<Rightarrow>
               (let s' = s\<lparr>os_tick := t, os_feed := rest\<rparr>
                in case ev of
                     Arrives m \<Rightarrow> Some ((1, m), s')
                   | Quits code \<Rightarrow>
                       Some ((0, \<lparr>HWnd = 0, Message = 0x0012, WParam = code, LParam = 0\<rparr>), s')
                   | Fails e \<Rightarrow> Some ((- 1, msg), s'\<lparr>os_last_error := e\<rparr>))))"

text \<open>The result is \<open>((ret, err), msg, state)\<close>, \<open>ret\<close> being \<open>int32(r1)\<close>.\<close>

definition GetMessageW ::
  "MSG \<Rightarrow> 'a globals_scheme \<Rightarrow> ((int32 \<times> error option) \<times> MSG \<times> 'a globals_scheme) option" where
  "GetMessageW msg st =
     (case sys_GetMessageW msg (os st) of
        None \<Rightarrow> None
      | Some ((r1, msg'), s') \<Rightarrow>
          (let st' = st\<lparr>os := s'\<rparr>; ret = (ucast r1 :: int32)
           in if ret = - 1 then Some ((ret, GetLastError st'), msg', st')
              else Some ((ret, None), msg', st')))"

definition TranslateMessage :: "MSG \<Rightarrow> 'a globals_scheme \<Rightarrow> 'a globals_scheme" where
  "TranslateMessage msg st = st"

section \<open>The dialog table and its trampoline (\<^verbatim>\<open>part_003\<close>, lines 225-254)\<close>

definition setDialogWndProc ::
  "HWND \<Rightarrow> WndProc option \<Rightarrow> 'a globals_scheme \<Rightarrow> WndProc option \<times> 'a globals_scheme" where
  "setDialogWndProc hwnd proc st =
     (let old = dialogWndProcs st hwnd
      in (old, case proc of
                 None \<Rightarrow> st\<lparr>dialogWndProcs := (dialogWndProcs st)(hwnd := None)\<rparr>
               | Some p \<Rightarrow> st\<lparr>dialogWndProcs := (dialogWndProcs st)(hwnd \<mapsto> p)\<rparr>))"

definition getDialogWndProc :: "HWND \<Rightarrow> 'a globals_scheme \<Rightarrow> WndProc option" where
  "getDialogWndProc hwnd st = dialogWndProcs st hwnd"

definition dialogGlobalWndProc ::
  "'a globals_scheme invoke \<Rightarrow> HWND \<Rightarrow> uint32 \<Rightarrow> uintptr \<Rightarrow> uintptr \<Rightarrow> 'a globals_scheme
     \<Rightarrow> (uintptr \<times> 'a globals_scheme) option" where
  "dialogGlobalWndProc invoke hwnd msg wParam lParam st =
     (case getDialogWndProc hwnd st of
        Some proc \<Rightarrow> invoke proc hwnd msg wParam lParam st
      | None \<Rightarrow> Some (DefWindowProcW hwnd msg wParam lParam st, st))"

section \<open>How the system calls back\<close>

text \<open>
  The system delivers a message to a window by calling the procedure of the window's
  class: one of the two trampolines for the classes this package registers with them,
  no Go code for any other class or for a handle that is no window.
\<close>

definition callWindowProc ::
  "'a globals_scheme invoke \<Rightarrow> HWND \<Rightarrow> uint32 \<Rightarrow> uintptr \<Rightarrow> uintptr \<Rightarrow> 'a globals_scheme
     \<Rightarrow> (uintptr \<times> 'a globals_scheme) option" where
  "callWindowProc invoke hwnd msg wParam lParam st =
     (case os_windows (os st) hwnd of
        None \<Rightarrow> Some (0, st)
      | Some w \<Rightarrow>
          (case map_of (os_classes (os st)) (wnd_class w) of
             Some GlobalWndProc \<Rightarrow> globalWndProc invoke hwnd msg wParam lParam st
           | Some DialogGlobalWndProc \<Rightarrow> dialogGlobalWndProc invoke hwnd msg wParam lParam st
           | _ \<Rightarrow> Some (DefWindowProcW hwnd msg wParam lParam st, st)))"

definition DispatchMessageW ::
  "'a globals_scheme invoke \<Rightarrow> MSG \<Rightarrow> 'a globals_scheme \<Rightarrow> (uintptr \<times> 'a globals_scheme) option" where
  "DispatchMessageW invoke msg st =
     callWindowProc invoke (HWnd msg) (Message msg) (WParam msg) (LParam msg) st"

text \<open>
  \<open>DestroyWindow\<close> on a live window sends it \<open>WM_DESTROY\<close> and then \<open>WM_NCDESTROY\<close>
  before it returns; the window and its child windows are gone afterwards, and so are
  the messages posted to them. The children in this package are controls of the
  system's classes.
\<close>

definition sys_goes_with :: "HWND \<Rightarrow> os_state \<Rightarrow> HWND \<Rightarrow> bool" where
  "sys_goes_with hwnd s h =
     (case os_windows s h of None \<Rightarrow> False | Some w \<Rightarrow> h = hwnd \<or> wnd_parent w = hwnd)"

definition sys_remove_window :: "HWND \<Rightarrow> os_state \<Rightarrow> os_state" where
  "sys_remove_window hwnd s =
     s\<lparr>os_windows := (\<lambda>h. if sys_goes_with hwnd s h then None else os_windows s h),
       os_posted := filter (\<lambda>m. \<not> sys_goes_with hwnd s (HWnd m)) (os_posted s)\<rparr>"

definition DestroyWindow ::
  "'a globals_scheme invoke \<Rightarrow> HWND \<Rightarrow> 'a globals_scheme \<Rightarrow> (error option \<times> 'a globals_scheme) option" where
  "DestroyWindow invoke hwnd st =
     (case os_windows (os st) hwnd of
        None \<Rightarrow> (let st' = st\<lparr>os := (os st)\<lparr>os_last_error := 1400\<rparr>\<rparr> in Some (GetLastError st', st'))
      | Some w \<Rightarrow>
          (case callWindowProc invoke hwnd WM_DESTROY 0 0 st of
             None \<Rightarrow> None
           | Some (r, st1) \<Rightarrow>
               (case callWindowProc invoke hwnd WM_NCDESTROY 0 0 st1 of
                  None \<Rightarrow> None
                | Some (r', st2) \<Rightarrow> Some (None, st2\<lparr>os := sys_remove_window hwnd (os st2)\<rparr>))))"

section \<open>The message loop (\<^verbatim>\<open>window.go\<close>, lines 256-271)\<close>

text \<open>
  The loop may run for ever, and the retrieval may never return: \<open>None\<close> is the call
  that does not return. \<open>msg\<close> is the variable of the loop, declared outside it.
\<close>

partial_function (option) MessageLoop_from ::
  "'a globals_scheme invoke \<Rightarrow> MSG \<Rightarrow> 'a globals_scheme
     \<Rightarrow> ((int32 \<times> error option) \<times> 'a globals_scheme) option" where
  "MessageLoop_from invoke msg st =
     (case GetMessageW msg st of
        None \<Rightarrow> None
      | Some ((ret, err), msg', st') \<Rightarrow>
          if ret = - 1 then Some ((0, err), st')
          else if ret = 0 then Some ((ucast (WParam msg'), None), st')
          else (case DispatchMessageW invoke msg' (TranslateMessage msg' st') of
                  None \<Rightarrow> None
                | Some (r, st'') \<Rightarrow> MessageLoop_from invoke msg' st''))"

declare MessageLoop_from.simps [code]

definition MessageLoop ::
  "'a globals_scheme invoke \<Rightarrow> 'a globals_scheme \<Rightarrow> ((int32 \<times> error option) \<times> 'a globals_scheme) option" where
  "MessageLoop invoke st =
     MessageLoop_from invoke \<lparr>HWnd = 0, Message = 0, WParam = 0, LParam = 0\<rparr> st"

text \<open>
  \<open>n\<close> rounds of the loop: \<open>n\<close> iterations in which the retrieval reports neither
  the quit message nor a failure, so that the message is translated and dispatched and the
  loop comes back to its head, with the variable \<open>msg\<close> and the state it has there.
\<close>

fun MessageLoop_steps ::
  "nat \<Rightarrow> 'a globals_scheme invoke \<Rightarrow> MSG \<Rightarrow> 'a globals_scheme
     \<Rightarrow> (MSG \<times> 'a globals_scheme) option" where
  "MessageLoop_steps 0 invoke msg st = Some (msg, st)"
| "MessageLoop_steps (Suc n) invoke msg st =
     (case GetMessageW msg st of
        None \<Rightarrow> None
      | Some ((ret, err), msg', st') \<Rightarrow>
          if ret = - 1 \<or> ret = 0 then None
          else (case DispatchMessageW invoke msg' (TranslateMessage msg' st') of
                  None \<Rightarrow> None
                | Some (r, st'') \<Rightarrow> MessageLoop_steps n invoke msg' st''))"

section \<open>The modal text-input dialog (\<^verbatim>\<open>part_003\<close>, lines 14-223)\<close>

text \<open>
  The variables that the dialog call shares with the closure it installs: the two
  results, the cancelled flag and the completion flag (an \<open>int32\<close> read and written
  atomically). They are local to the call, so a procedure supplied by a caller of the
  package cannot reach them: such a procedure works on the package variables and the
  system, and \<open>callGoFunc\<close> runs it inside a dialog call, leaving the locals alone.
\<close>

record dialog_frame = globals +
  result1 :: string
  result2 :: string
  cancelled :: bool
  done_flag :: int32

type_synonym go_procs =
  "nat \<Rightarrow> HWND \<Rightarrow> uint32 \<Rightarrow> uintptr \<Rightarrow> uintptr \<Rightarrow> globals \<Rightarrow> (uintptr \<times> globals) option"

definition globals_of :: "'a globals_scheme \<Rightarrow> globals" where
  "globals_of st =
     \<lparr>wndProcByHWND = wndProcByHWND st, dialogWndProcs = dialogWndProcs st, os = os st\<rparr>"

definition callGoFunc ::
  "go_procs \<Rightarrow> nat \<Rightarrow> HWND \<Rightarrow> uint32 \<Rightarrow> uintptr \<Rightarrow> uintptr \<Rightarrow> dialog_frame
     \<Rightarrow> (uintptr \<times> dialog_frame) option" where
  "callGoFunc procs n hwnd msg wParam lParam st =
     (case procs n hwnd msg wParam lParam (globals_of st) of
        None \<Rightarrow> None
      | Some (ret, g) \<Rightarrow>
          Some (ret, st\<lparr>wndProcByHWND := wndProcByHWND g,
                         dialogWndProcs := dialogWndProcs g, os := os g\<rparr>))"

text \<open>
  The closure of lines 148-176. Its call of \<open>DestroyWindow\<close> makes the system call the
  procedure of the window again, so the call is a parameter here: see \<open>invoke_dialog\<close>.
  \<open>id\<close> is \<open>int32(wParam & 0xFFFF)\<close>. A Go \<open>switch\<close> does not fall through: a
  \<open>WM_COMMAND\<close> of another control leaves the \<open>switch\<close> and reaches the default
  procedure.
\<close>

definition twoTextProc ::
  "(HWND \<Rightarrow> dialog_frame \<Rightarrow> (error option \<times> dialog_frame) option) \<Rightarrow> HWND \<Rightarrow> HWND
     \<Rightarrow> HWND \<Rightarrow> uint32 \<Rightarrow> uintptr \<Rightarrow> uintptr \<Rightarrow> dialog_frame \<Rightarrow> (uintptr \<times> dialog_frame) option" where
  "twoTextProc destroyWindow edit1Hwnd edit2Hwnd hwnd msg wParam lParam st =
     (if msg = WM_COMMAND then
        (let id = (ucast (wParam AND 0xFFFF) :: int32)
         in if id = IDOK then
              (let ((text1, e1), st1) = GetWindowTextW edit1Hwnd st;
                   ((text2, e2), st2) = GetWindowTextW edit2Hwnd st1;
                   st3 = st2\<lparr>result1 := text1, result2 := text2, done_flag := 1\<rparr>;
                   (e3, st4) = PostMessageW hwnd WM_CLOSE 0 0 st3
               in Some (0, st4))
            else if id = IDCANCEL then
              (let st1 = st\<lparr>cancelled := True, done_flag := 1\<rparr>;
                   (e3, st2) = PostMessageW hwnd WM_CLOSE 0 0 st1
               in Some (0, st2))
            else Some (DefWindowProcW hwnd msg wParam lParam st, st))
      else if msg = WM_CLOSE then
        (case destroyWindow hwnd st of
           None \<Rightarrow> None
         | Some (e, st1) \<Rightarrow> Some (0, st1))
      else if msg = WM_DESTROY then Some (0, st\<lparr>done_flag := 1\<rparr>)
      else Some (DefWindowProcW hwnd msg wParam lParam st, st))"

text \<open>
  Calling a \<open>WndProc\<close> during a dialog call. \<open>invoke_dialog\<close> is the call the system
  makes when the modal loop dispatches a message; \<open>invoke_nested\<close> is the call it
  makes from inside \<open>DestroyWindow\<close>, with \<open>WM_DESTROY\<close> and \<open>WM_NCDESTROY\<close>, on
  which the closure does not reach its own \<open>DestroyWindow\<close>.
\<close>

definition invoke_nested :: "go_procs \<Rightarrow> dialog_frame invoke" where
  "invoke_nested procs proc =
     (case proc of
        GoFunc n \<Rightarrow> callGoFunc procs n
      | TwoTextProc e1 e2 \<Rightarrow> twoTextProc (\<lambda>h st. None) e1 e2)"

definition invoke_dialog :: "go_procs \<Rightarrow> dialog_frame invoke" where
  "invoke_dialog procs proc =
     (case proc of
        GoFunc n \<Rightarrow> callGoFunc procs n
      | TwoTextProc e1 e2 \<Rightarrow> twoTextProc (DestroyWindow (invoke_nested procs)) e1 e2)"

text \<open>
  The loop of lines 187-212; its result is the state at the \<open>break\<close> or at the failed
  loop condition. \<open>timeoutMs\<close> is 30000 and the subtraction is that of \<open>uint32\<close>.
\<close>

partial_function (option) modalLoop :: "go_procs \<Rightarrow> uint32 \<Rightarrow> dialog_frame \<Rightarrow> dialog_frame option" where
  "modalLoop procs startTick st =
     (if done_flag st \<noteq> 0 then Some st
      else if GetTickCount st - startTick > 30000 then Some st
      else (case GetMessageW \<lparr>HWnd = 0, Message = 0, WParam = 0, LParam = 0\<rparr> st of
              None \<Rightarrow> None
            | Some ((ret, err), msg, st1) \<Rightarrow>
                if ret = 0 then Some st1
                else if ret = - 1 then Some st1
                else (case DispatchMessageW (invoke_dialog procs) msg (TranslateMessage msg st1) of
                        None \<Rightarrow> None
                      | Some (r, st2) \<Rightarrow> modalLoop procs startTick st2)))"

declare modalLoop.simps [code]

text \<open>Lines 42-114: the six controls, every error dropped (\<open>hwnd, _ := ...\<close>).\<close>

definition createControls ::
  "string \<Rightarrow> string \<Rightarrow> string \<Rightarrow> string \<Rightarrow> HWND \<Rightarrow> globals
     \<Rightarrow> (HWND \<times> HWND \<times> HWND \<times> HWND \<times> HWND \<times> HWND) \<times> globals" where
  "createControls label1 label2 defaultValue1 defaultValue2 dialogHWnd g =
     (let ((label1Hwnd, e1), g1) = CreateWindowExW ''STATIC'' label1 dialogHWnd g;
          ((edit1Hwnd, e2), g2) = CreateWindowExW ''EDIT'' defaultValue1 dialogHWnd g1;
          ((label2Hwnd, e3), g3) = CreateWindowExW ''STATIC'' label2 dialogHWnd g2;
          ((edit2Hwnd, e4), g4) = CreateWindowExW ''EDIT'' defaultValue2 dialogHWnd g3;
          ((okHwnd, e5), g5) = CreateWindowExW ''BUTTON'' ''OK'' dialogHWnd g4;
          ((cancelHwnd, e6), g6) = CreateWindowExW ''BUTTON'' ''Cancel'' dialogHWnd g5
      in ((label1Hwnd, edit1Hwnd, label2Hwnd, edit2Hwnd, okHwnd, cancelHwnd), g6))"

text \<open>Lines 116-141: the font, applied to the six controls when it could be created.\<close>

definition applyFont :: "HWND \<times> HWND \<times> HWND \<times> HWND \<times> HWND \<times> HWND \<Rightarrow> globals \<Rightarrow> globals" where
  "applyFont controls g =
     (case controls of (label1Hwnd, edit1Hwnd, label2Hwnd, edit2Hwnd, okHwnd, cancelHwnd) \<Rightarrow>
        (let (uiFont, fontErr) = CreateFontW g
         in if fontErr = None \<and> uiFont \<noteq> 0 then
              (let g1 = SetWindowFontW label1Hwnd uiFont False g;
                   g2 = SetWindowFontW edit1Hwnd uiFont False g1;
                   g3 = SetWindowFontW label2Hwnd uiFont False g2;
                   g4 = SetWindowFontW edit2Hwnd uiFont False g3;
                   g5 = SetWindowFontW okHwnd uiFont False g4
               in SetWindowFontW cancelHwnd uiFont False g5)
            else g))"

text \<open>
  Lines 143-222: the locals, the closure installed and its restoration deferred, the
  loop, the cleanup. The deferred \<open>setDialogWndProc(dialogHWnd, oldProc)\<close> runs last,
  after the operands of \<open>return\<close> have been evaluated.
\<close>

definition runModal ::
  "go_procs \<Rightarrow> HWND \<Rightarrow> HWND \<Rightarrow> HWND \<Rightarrow> HWND \<Rightarrow> globals
     \<Rightarrow> ((string \<times> string \<times> bool \<times> error option) \<times> globals) option" where
  "runModal procs dialogHWnd edit1Hwnd edit2Hwnd okHwnd g =
     (let st0 = \<lparr>wndProcByHWND = wndProcByHWND g, dialogWndProcs = dialogWndProcs g, os = os g,
                 result1 = [], result2 = [], cancelled = False, done_flag = 0\<rparr>;
          (oldProc, st1) = setDialogWndProc dialogHWnd (Some (TwoTextProc edit1Hwnd edit2Hwnd)) st0;
          st2 = ShowWindowW dialogHWnd 5 st1;
          st3 = SetFocus okHwnd st2;
          startTick = GetTickCount st3
      in case modalLoop procs startTick st3 of
           None \<Rightarrow> None
         | Some st4 \<Rightarrow>
             (case (if IsWindowW dialogHWnd st4
                    then DestroyWindow (invoke_nested procs) dialogHWnd st4
                    else Some (None, st4)) of
                None \<Rightarrow> None
              | Some (e, st5) \<Rightarrow>
                  (let (old', st6) = setDialogWndProc dialogHWnd None st5;
                       ret = (result1 st6, result2 st6, cancelled st6, None);
                       (old'', st7) = setDialogWndProc dialogHWnd oldProc st6
                   in Some (ret, globals_of st7))))"

definition TwoTextInputDialog ::
  "go_procs \<Rightarrow> string \<Rightarrow> string \<Rightarrow> string \<Rightarrow> string \<Rightarrow> string \<Rightarrow> globals
     \<Rightarrow> ((string \<times> string \<times> bool \<times> error option) \<times> globals) option" where
  "TwoTextInputDialog procs title label1 label2 defaultValue1 defaultValue2 g =
     (let (hInstance, err) = getModuleHandleCurrentProcess g
      in if err \<noteq> None
         then Some (([], [], False, Some (Wrapped ''failed to get module handle'' err)), g)
         else
           (let ((dialogHWnd, err), g1) = CreateWindowExW ''dialog_input'' title 0 g
            in if err \<noteq> None
               then Some (([], [], False, Some (Wrapped ''failed to create dialog'' err)), g1)
               else
                 (let (controls, g2) =
                        createControls label1 label2 defaultValue1 defaultValue2 dialogHWnd g1;
                      g3 = applyFont controls g2
                  in case controls of
                       (label1Hwnd, edit1Hwnd, label2Hwnd, edit2Hwnd, okHwnd, cancelHwnd) \<Rightarrow>
                         runModal procs dialogHWnd edit1Hwnd edit2Hwnd okHwnd g3)))"

section \<open>What can reach a window of the main registry during a dialog call\<close>

text \<open>
  The global trampoline removes the entry of a handle when \<open>WM_NCDESTROY\<close> is
  delivered to it. During a dialog call a message is delivered because the modal loop
  retrieves it from the queue, or because \<open>DestroyWindow\<close> sends it; the dialog calls
  \<open>DestroyWindow\<close> for its own window (a window of the class of the dialogs, created
  during the call with a handle the system had left). So nothing delivers
  \<open>WM_NCDESTROY\<close> to the handle \<open>h\<close> while the system is \<open>undisturbed\<close> for it:
  no such message is posted or in the feed, \<open>h\<close> is not a handle the system can still
  hand out, and \<open>h\<close> is not a window of a class registered with the dialog trampoline.
  \<open>entry_kept\<close> adds that the main registry holds \<open>e\<close> for \<open>h\<close>.
\<close>

definition is_ncdestroy_for :: "HWND \<Rightarrow> MSG \<Rightarrow> bool" where
  "is_ncdestroy_for h m = (HWnd m = h \<and> Message m = WM_NCDESTROY)"

definition pending_ncdestroy :: "HWND \<Rightarrow> os_state \<Rightarrow> bool" where
  "pending_ncdestroy h s =
     (list_ex (is_ncdestroy_for h) (os_posted s)
      \<or> list_ex (\<lambda>(t, ev). case ev of Arrives m \<Rightarrow> is_ncdestroy_for h m | _ \<Rightarrow> False)
            (os_feed s))"

definition is_dialog_window :: "HWND \<Rightarrow> os_state \<Rightarrow> bool" where
  "is_dialog_window h s =
     (case os_windows s h of
        None \<Rightarrow> False
      | Some w \<Rightarrow> map_of (os_classes s) (wnd_class w) = Some DialogGlobalWndProc)"

definition undisturbed :: "HWND \<Rightarrow> os_state \<Rightarrow> bool" where
  "undisturbed h s =
     (\<not> pending_ncdestroy h s \<and> h \<notin> set (os_free s) \<and> \<not> is_dialog_window h s)"

definition entry_kept :: "HWND \<Rightarrow> WndProc option \<Rightarrow> 'a globals_scheme \<Rightarrow> bool" where
  "entry_kept h e st = (wndProcByHWND st h = e \<and> undisturbed h (os st))"

section \<open>Scenarios\<close>

text \<open>
  A system that knows the classes of the standard controls and the class of the
  message-only windows of this package, with no window yet. \<open>package_init\<close> is
  \<open>init\<close> of \<^verbatim>\<open>part_003\<close> (lines 256-270): it registers the class of the dialogs with
  the dialog trampoline and drops the result.
\<close>

definition os_boot :: os_state where
  "os_boot =
     \<lparr>os_module = 0x400000, os_last_error = 0,
      os_classes = [(''STATIC'', SystemWndProc), (''EDIT'', SystemWndProc),
                    (''BUTTON'', SystemWndProc),
                    (''win32utils.MessageOnlyWindow'', GlobalWndProc)],
      os_windows = Map.empty, os_free = [], os_tick = 1000, os_posted = [], os_feed = [],
      os_font = 0x77, os_default = (\<lambda>hwnd msg wParam lParam. 0)\<rparr>"

definition dialog_wcx :: WNDCLASSEXW where
  "dialog_wcx =
     \<lparr>CbSize = 0, LpfnWndProc = DialogGlobalWndProc, LpszClassName = ''dialog_input''\<rparr>"

definition package_init :: "globals \<Rightarrow> globals" where
  "package_init g = snd (registerClassExW (Some dialog_wcx) g)"

text \<open>
  The package after \<open>init\<close>, on a system with the given handles left and the given
  feed of messages.
\<close>

definition scenario :: "HWND list \<Rightarrow> (uint32 \<times> retrieval) list \<Rightarrow> globals" where
  "scenario free feed =
     (let g = package_init \<lparr>wndProcByHWND = Map.empty, dialogWndProcs = Map.empty, os = os_boot\<rparr>
      in g\<lparr>os := (os g)\<lparr>os_free := free, os_feed := feed\<rparr>\<rparr>)"

text \<open>
  The test \<^verbatim>\<open>TestGlobalWndProcDispatchAndCleanup\<close> (\<^verbatim>\<open>window_wndproc_test.go\<close>): its
  local \<open>called\<close>, and its handler, which counts its calls, stops the test on a foreign
  handle and answers 99 to message \<open>0x0400\<close>. \<open>test_start\<close> is the state after the
  handler has been registered for handle \<open>0x1234\<close>.
\<close>

record test_frame = globals +
  called :: nat

definition test_handler :: "test_frame invoke" where
  "test_handler proc h msg wParam lParam st =
     (let st' = st\<lparr>called := called st + 1\<rparr>
      in if h \<noteq> 0x1234 then None
         else if msg = 0x0400 then Some (99, st')
         else Some (0, st'))"

text \<open>A handler that looks its own handle up and answers 1 when it finds it registered.\<close>

definition probe_handler :: "test_frame invoke" where
  "probe_handler proc h msg wParam lParam st =
     Some (if getWndProc h st = None then 0 else 1, st\<lparr>called := called st + 1\<rparr>)"

definition test_start :: test_frame where
  "test_start =
     setWndProc 0x1234 (Some (GoFunc 0))
       \<lparr>wndProcByHWND = Map.empty, dialogWndProcs = Map.empty, os = os_boot, called = 0\<rparr>"

text \<open>
  A thread that runs the message loop for the window of the test: the window
  \<open>0x1234\<close> of a class registered with the global trampoline, at a given tick, with a
  given last-error code, call count and feed.
\<close>

definition loop_state :: "uint32 \<Rightarrow> uint32 \<Rightarrow> nat \<Rightarrow> (uint32 \<times> retrieval) list \<Rightarrow> test_frame" where
  "loop_state tick code n feed =
     test_start\<lparr>os := os_boot\<lparr>
       os_last_error := code,
       os_windows := [0x1234 \<mapsto> \<lparr>wnd_class = ''win32utils.MessageOnlyWindow'', wnd_parent = 0,
                                  wnd_text = ''win32utils''\<rparr>],
       os_tick := tick,
       os_feed := feed\<rparr>, called := n\<rparr>"

text \<open>
  Scenarios of the dialog. \<open>idle_procs\<close> is a table of procedures that return 0 and
  change nothing. \<open>closing_procs\<close> is a table of procedures that answer \<open>WM_USER\<close>
  with \<open>DestroyWindow(hwnd)\<close> and return 0 on every other message, in particular on
  the \<open>WM_DESTROY\<close> and \<open>WM_NCDESTROY\<close> that the system sends them from inside
  \<open>DestroyWindow\<close>. \<open>dialog_handles\<close> are the seven handles a dialog needs, the dialog
  window being \<open>0x100\<close>. \<open>stale_entry\<close> is a package whose dialog table still has a
  procedure for the handle the next dialog window will get. \<open>main_window\<close> is a
  package with a live message-only window \<open>0x200\<close> and a procedure registered for it in
  the main registry.
\<close>

definition idle_procs :: go_procs where
  "idle_procs n hwnd msg wParam lParam g = Some (0, g)"


definition dialog_handles :: "HWND list" where
  "dialog_handles = [0x100, 0x101, 0x102, 0x103, 0x104, 0x105, 0x106]"

definition stale_entry :: "(uint32 \<times> retrieval) list \<Rightarrow> globals" where
  "stale_entry feed = (scenario dialog_handles feed)\<lparr>dialogWndProcs := [0x100 \<mapsto> GoFunc 7]\<rparr>"

definition main_window :: "(uint32 \<times> retrieval) list \<Rightarrow> globals" where
  "main_window feed =
     (let g = scenario dialog_handles feed
      in setWndProc 0x200 (Some (GoFunc 0))
           (g\<lparr>os := (os g)\<lparr>os_windows :=
              [0x200 \<mapsto> \<lparr>wnd_class = ''win32utils.MessageOnlyWindow'', wnd_parent = 0,
                           wnd_text = ''win32utils''\<rparr>]\<rparr>\<rparr>))"

section \<open>The registry and the global trampoline: properties\<close>

lemmas wm_defs =
  WM_DESTROY_def WM_NCDESTROY_def WM_CLOSE_def WM_COMMAND_def WM_USER_def IDOK_def IDCANCEL_def

text \<open>
  Claim C8. For every handle, \<open>setWndProc\<close> with a nil procedure is \<open>deleteWndProc\<close>;
  \<open>deleteWndProc\<close> on a handle without an entry leaves the registry as it is; applying
  either operation twice gives the state that applying it once gives. Neither operation
  has an error result.
\<close>

theorem registry_set_nil_remove_idempotent:
  "setWndProc hwnd None st = deleteWndProc hwnd st
   \<and> (getWndProc hwnd st = None \<longrightarrow> deleteWndProc hwnd st = st)
   \<and> deleteWndProc hwnd (deleteWndProc hwnd st) = deleteWndProc hwnd st
   \<and> setWndProc hwnd proc (setWndProc hwnd proc st) = setWndProc hwnd proc st"
  by (cases proc) (auto simp: setWndProc_def deleteWndProc_def getWndProc_def fun_upd_idem)

theorem registry_set_nil_remove_idempotent_witness:
  "getWndProc 0x4321 test_start = None
   \<and> deleteWndProc 0x4321 test_start = test_start
   \<and> setWndProc 0x1234 None test_start = deleteWndProc 0x1234 test_start
   \<and> getWndProc 0x1234 (deleteWndProc 0x1234 test_start) = None"
proof -
  have absent: "getWndProc 0x4321 test_start = None"
    by (simp add: test_start_def getWndProc_def setWndProc_def)
  have gone: "getWndProc 0x1234 (deleteWndProc 0x1234 test_start) = None"
    by (simp add: getWndProc_def deleteWndProc_def)
  from absent gone show ?thesis
    using registry_set_nil_remove_idempotent [of "0x4321" test_start None]
      registry_set_nil_remove_idempotent [of "0x1234" test_start None]
    by simp
qed

text \<open>
  Claim C1. For a handle with a registered procedure, dispatching \<open>WM_NCDESTROY\<close>
  through the trampoline calls that procedure once, on the state in which the handle is
  still registered; the entry is removed from the state the procedure returns; and in
  every state the dispatch returns, \<open>getWndProc\<close> reports the handle as not found.
\<close>

theorem globalWndProc_final_destroy:
  assumes "getWndProc hwnd st = Some proc"
  shows "globalWndProc invoke hwnd WM_NCDESTROY wParam lParam st =
           (case invoke proc hwnd WM_NCDESTROY wParam lParam st of
              None \<Rightarrow> None
            | Some (ret, st') \<Rightarrow> Some (ret, deleteWndProc hwnd st'))
         \<and> (\<forall>ret st''. globalWndProc invoke hwnd WM_NCDESTROY wParam lParam st = Some (ret, st'')
               \<longrightarrow> getWndProc hwnd st'' = None)"
  using assms
  by (auto simp: globalWndProc_def getWndProc_def deleteWndProc_def split: option.splits)

theorem globalWndProc_final_destroy_witness:
  "getWndProc 0x1234 test_start = Some (GoFunc 0)
   \<and> globalWndProc probe_handler 0x1234 WM_NCDESTROY 0 0 test_start =
       Some (1, deleteWndProc 0x1234 (test_start\<lparr>called := 1\<rparr>))
   \<and> getWndProc 0x1234 (deleteWndProc 0x1234 (test_start\<lparr>called := 1\<rparr>)) = None"
proof -
  have reg: "getWndProc 0x1234 test_start = Some (GoFunc 0)"
    by (simp add: test_start_def getWndProc_def setWndProc_def)
  have run: "probe_handler (GoFunc 0) 0x1234 WM_NCDESTROY 0 0 test_start =
               Some (1, test_start\<lparr>called := 1\<rparr>)"
    by (simp add: probe_handler_def reg) (simp add: test_start_def setWndProc_def)
  from reg run show ?thesis
    using globalWndProc_final_destroy [OF reg, of probe_handler 0 0]
    by simp
qed

text \<open>
  Claim C2. For a handle with a registered procedure and a message other than
  \<open>WM_NCDESTROY\<close>, the trampoline is one call of that procedure with the same handle,
  message and parameters, on the same state: it returns what the procedure returns and
  leaves the state the procedure leaves. The handler of the test answers 99 to message
  \<open>0x0400\<close> and its call count goes up by one (the witness).
\<close>

theorem globalWndProc_dispatch:
  assumes "getWndProc hwnd st = Some proc" and "msg \<noteq> WM_NCDESTROY"
  shows "globalWndProc invoke hwnd msg wParam lParam st = invoke proc hwnd msg wParam lParam st"
  using assms by (auto simp: globalWndProc_def split: option.splits)

theorem globalWndProc_dispatch_witness:
  "getWndProc 0x1234 test_start = Some (GoFunc 0)
   \<and> (0x0400 :: uint32) \<noteq> WM_NCDESTROY
   \<and> globalWndProc test_handler 0x1234 0x0400 1 2 test_start =
       Some (99, test_start\<lparr>called := called test_start + 1\<rparr>)"
proof -
  have reg: "getWndProc 0x1234 test_start = Some (GoFunc 0)"
    by (simp add: test_start_def getWndProc_def setWndProc_def)
  have msg: "(0x0400 :: uint32) \<noteq> WM_NCDESTROY"
    by (simp add: WM_NCDESTROY_def)
  from reg msg show ?thesis
    using globalWndProc_dispatch [OF reg msg, of test_handler 1 2]
    by (simp add: test_handler_def)
qed

text \<open>
  Claim C6. For a handle with no registered procedure and every message, the trampoline
  returns the result of the system's default procedure and leaves the state, and so the
  registry, as it was.
\<close>

theorem globalWndProc_unregistered:
  assumes "getWndProc hwnd st = None"
  shows "globalWndProc invoke hwnd msg wParam lParam st =
           Some (DefWindowProcW hwnd msg wParam lParam st, st)
         \<and> (\<forall>ret st'. globalWndProc invoke hwnd msg wParam lParam st = Some (ret, st')
               \<longrightarrow> wndProcByHWND st' = wndProcByHWND st)"
  using assms by (simp add: globalWndProc_def)

theorem globalWndProc_unregistered_witness:
  "getWndProc 0x4321 test_start = None
   \<and> globalWndProc test_handler 0x4321 WM_USER 1 2 test_start = Some (0, test_start)"
proof -
  have absent: "getWndProc 0x4321 test_start = None"
    by (simp add: test_start_def getWndProc_def setWndProc_def)
  have dflt: "DefWindowProcW 0x4321 WM_USER 1 2 test_start = 0"
    by (simp add: DefWindowProcW_def test_start_def setWndProc_def os_boot_def)
  from absent dflt show ?thesis
    using globalWndProc_unregistered [OF absent, of test_handler WM_USER 1 2]
    by simp
qed

section \<open>Class registration and the message loop: properties\<close>

lemma ucast_minus_one [simp]: "(ucast (- 1 :: 64 word) :: 32 word) = - 1"
  by (rule bit_word_eqI) (simp add: bit_simps)





text \<open>Rounds of the loop do not change what the loop returns.\<close>

lemma MessageLoop_from_steps:
  "MessageLoop_steps n invoke msg st = Some (m, s) \<Longrightarrow>
     MessageLoop_from invoke msg st = MessageLoop_from invoke m s"
proof (induction n arbitrary: msg st)
  case 0
  then show ?case by simp
next
  case (Suc n)
  from Suc.prems obtain ret err msg' st' r st'' where
    gm: "GetMessageW msg st = Some ((ret, err), msg', st')" and
    nq: "ret \<noteq> - 1" "ret \<noteq> 0" and
    dm: "DispatchMessageW invoke msg' (TranslateMessage msg' st') = Some (r, st'')" and
    rest: "MessageLoop_steps n invoke msg' st'' = Some (m, s)"
    by (auto split: option.splits if_splits)
  from gm nq dm have "MessageLoop_from invoke msg st = MessageLoop_from invoke msg' st''"
    by (subst MessageLoop_from.simps) simp
  with Suc.IH [OF rest] show ?case by simp
qed

text \<open>
  A run of the loop that returns has gone round some number of times and then met the
  quit message or a failed retrieval.
\<close>

lemma MessageLoop_from_returns:
  assumes "MessageLoop_from invoke msg st = Some y"
  shows "\<exists>n m s e m'. MessageLoop_steps n invoke msg st = Some (m, s) \<and>
           (GetMessageW m s = Some ((0, e), m', snd y) \<and> fst y = (ucast (WParam m'), None)
            \<or> GetMessageW m s = Some ((- 1, e), m', snd y) \<and> fst y = (0, e))"
  using assms
proof (induction rule: MessageLoop_from.raw_induct [rotated 1, consumes 1])
  case (1 loop invoke msg st y)
  show ?case
  proof (cases "GetMessageW msg st")
    case None
    with "1.hyps" show ?thesis by simp
  next
    case (Some a)
    obtain ret err msg' st' where a: "a = ((ret, err), msg', st')"
      by (metis prod.collapse)
    have start: "MessageLoop_steps 0 invoke msg st = Some (msg, st)" by simp
    show ?thesis
    proof (cases "ret = - 1")
      case True
      with "1.hyps" Some a have "y = ((0, err), st')" by simp
      with Some a True
      have "GetMessageW msg st = Some ((- 1, err), msg', snd y) \<and> fst y = (0, err)" by simp
      with start show ?thesis by blast
    next
      case False
      note nerr = this
      show ?thesis
      proof (cases "ret = 0")
        case True
        with "1.hyps" Some a nerr have "y = ((ucast (WParam msg'), None), st')" by simp
        with Some a True
        have "GetMessageW msg st = Some ((0, err), msg', snd y)
                \<and> fst y = (ucast (WParam msg'), None)" by simp
        with start show ?thesis by blast
      next
        case False
        with "1.hyps" Some a nerr obtain r st'' where
          dm: "DispatchMessageW invoke msg' (TranslateMessage msg' st') = Some (r, st'')" and
          rest: "loop invoke msg' st'' = Some y"
          by (auto split: option.splits)
        from "1.IH" [OF rest] obtain n m s e m' where
          steps: "MessageLoop_steps n invoke msg' st'' = Some (m, s)" and
          ex: "GetMessageW m s = Some ((0, e), m', snd y) \<and> fst y = (ucast (WParam m'), None)
               \<or> GetMessageW m s = Some ((- 1, e), m', snd y) \<and> fst y = (0, e)"
          by blast
        from Some a nerr False dm steps
        have "MessageLoop_steps (Suc n) invoke msg st = Some (m, s)" by simp
        with ex show ?thesis by blast
      qed
    qed
  qed
qed

text \<open>
  Claim C7. In every iteration of the message loop: when the retrieval reports the quit
  message (result 0) the loop returns the \<open>WParam\<close> of that message, as an \<open>int32\<close>,
  and no error; when the retrieval reports a failure (result -1) the loop returns 0 and
  the error of the retrieval, without another retrieval; for every other result it
  translates and dispatches the message and goes on with the next iteration. The loop
  returns a result exactly when, after some number of rounds, the retrieval reports the
  quit message, the result being its payload and no error, or a failure, the result being
  0 and its error: there is no other way out.
\<close>

theorem MessageLoop_terminal_conditions:
  "(\<forall>err msg' st'. GetMessageW msg st = Some ((0, err), msg', st') \<longrightarrow>
       MessageLoop_from invoke msg st = Some ((ucast (WParam msg'), None), st'))
   \<and> (\<forall>err msg' st'. GetMessageW msg st = Some ((- 1, err), msg', st') \<longrightarrow>
       MessageLoop_from invoke msg st = Some ((0, err), st'))
   \<and> (\<forall>ret err msg' st'.
         GetMessageW msg st = Some ((ret, err), msg', st') \<and> ret \<noteq> 0 \<and> ret \<noteq> - 1 \<longrightarrow>
         MessageLoop_from invoke msg st =
           (case DispatchMessageW invoke msg' (TranslateMessage msg' st') of
              None \<Rightarrow> None
            | Some (r, st'') \<Rightarrow> MessageLoop_from invoke msg' st''))
   \<and> (\<forall>code err st_end.
         MessageLoop_from invoke msg st = Some ((code, err), st_end) \<longleftrightarrow>
         (\<exists>n m s e m'. MessageLoop_steps n invoke msg st = Some (m, s) \<and>
            (GetMessageW m s = Some ((0, e), m', st_end) \<and> code = ucast (WParam m') \<and> err = None
             \<or> GetMessageW m s = Some ((- 1, err), m', st_end) \<and> code = 0)))"
proof (intro conjI allI impI iffI)
  fix err msg' st'
  assume "GetMessageW msg st = Some ((0, err), msg', st')"
  then show "MessageLoop_from invoke msg st = Some ((ucast (WParam msg'), None), st')"
    by (subst MessageLoop_from.simps) simp
next
  fix err msg' st'
  assume "GetMessageW msg st = Some ((- 1, err), msg', st')"
  then show "MessageLoop_from invoke msg st = Some ((0, err), st')"
    by (subst MessageLoop_from.simps) simp
next
  fix ret err msg' st'
  assume "GetMessageW msg st = Some ((ret, err), msg', st') \<and> ret \<noteq> 0 \<and> ret \<noteq> - 1"
  then show "MessageLoop_from invoke msg st =
         (case DispatchMessageW invoke msg' (TranslateMessage msg' st') of
            None \<Rightarrow> None
          | Some (r, st'') \<Rightarrow> MessageLoop_from invoke msg' st'')"
    by (subst MessageLoop_from.simps) simp
next
  fix code err st_end
  assume "MessageLoop_from invoke msg st = Some ((code, err), st_end)"
  from MessageLoop_from_returns [OF this] obtain n m s e m' where
    steps: "MessageLoop_steps n invoke msg st = Some (m, s)" and
    ex: "GetMessageW m s = Some ((0, e), m', st_end) \<and> (code, err) = (ucast (WParam m'), None)
         \<or> GetMessageW m s = Some ((- 1, e), m', st_end) \<and> (code, err) = (0, e)"
    by auto
  from ex have "GetMessageW m s = Some ((0, e), m', st_end) \<and> code = ucast (WParam m') \<and> err = None
             \<or> GetMessageW m s = Some ((- 1, err), m', st_end) \<and> code = 0"
    by auto
  with steps
  show "\<exists>n m s e m'. MessageLoop_steps n invoke msg st = Some (m, s) \<and>
            (GetMessageW m s = Some ((0, e), m', st_end) \<and> code = ucast (WParam m') \<and> err = None
             \<or> GetMessageW m s = Some ((- 1, err), m', st_end) \<and> code = 0)"
    by blast
next
  fix code :: int32 and err st_end
  assume "\<exists>n m s e m'. MessageLoop_steps n invoke msg st = Some (m, s) \<and>
            (GetMessageW m s = Some ((0, e), m', st_end) \<and> code = ucast (WParam m') \<and> err = None
             \<or> GetMessageW m s = Some ((- 1, err), m', st_end) \<and> code = 0)"
  then obtain n m s e m' where
    steps: "MessageLoop_steps n invoke msg st = Some (m, s)" and
    ex: "GetMessageW m s = Some ((0, e), m', st_end) \<and> code = ucast (WParam m') \<and> err = None
         \<or> GetMessageW m s = Some ((- 1, err), m', st_end) \<and> code = 0"
    by blast
  from ex have "MessageLoop_from invoke m s = Some ((code, err), st_end)"
    by (subst MessageLoop_from.simps) auto
  with MessageLoop_from_steps [OF steps] show "MessageLoop_from invoke msg st = Some ((code, err), st_end)"
    by simp
qed

lemma loop_state_message:
  "GetMessageW m (loop_state t c n ((t', Arrives m') # rest)) =
     Some ((1, None), m', loop_state t' c n rest)"
  by (simp add: GetMessageW_def sys_GetMessageW_def loop_state_def os_boot_def Let_def)

lemma loop_state_quit:
  "GetMessageW m (loop_state t c n ((t', Quits code) # rest)) =
     Some ((0, None), \<lparr>HWnd = 0, Message = 0x0012, WParam = code, LParam = 0\<rparr>,
           loop_state t' c n rest)"
  by (simp add: GetMessageW_def sys_GetMessageW_def loop_state_def os_boot_def Let_def)

lemma loop_state_error:
  "e \<noteq> 0 \<Longrightarrow> GetMessageW m (loop_state t c n ((t', Fails e) # rest)) =
     Some ((- 1, Some (Errno e)), m, loop_state t' e n rest)"
  by (simp add: GetMessageW_def sys_GetMessageW_def loop_state_def os_boot_def Let_def
      GetLastError_def)

lemma loop_state_dispatch:
  "DispatchMessageW test_handler \<lparr>HWnd = 0x1234, Message = 0x0400, WParam = 1, LParam = 2\<rparr>
     (TranslateMessage m (loop_state t c n feed)) = Some (99, loop_state t c (n + 1) feed)"
  by (simp add: DispatchMessageW_def TranslateMessage_def callWindowProc_def globalWndProc_def
      getWndProc_def test_handler_def loop_state_def os_boot_def test_start_def setWndProc_def
      WM_NCDESTROY_def Let_def)

text \<open>
  A message for the window of the test and then the quit message with exit code 7: the
  handler runs once and the loop returns 7. A failed retrieval with code 5: the loop
  returns that error at once, the quit message still in the feed.
\<close>

theorem MessageLoop_terminal_conditions_witness:
  "MessageLoop test_handler
     (loop_state 1000 0 0
        [(1100, Arrives \<lparr>HWnd = 0x1234, Message = 0x0400, WParam = 1, LParam = 2\<rparr>),
         (1200, Quits 7)]) = Some ((7, None), loop_state 1200 0 1 [])
   \<and> MessageLoop test_handler (loop_state 1000 0 0 [(1100, Fails 5), (1200, Quits 7)]) =
       Some ((0, Some (Errno 5)), loop_state 1100 5 0 [(1200, Quits 7)])"
  unfolding MessageLoop_def
  using MessageLoop_terminal_conditions
          [of "\<lparr>HWnd = 0, Message = 0, WParam = 0, LParam = 0\<rparr>"
              "loop_state 1000 0 0
                 [(1100, Arrives \<lparr>HWnd = 0x1234, Message = 0x0400, WParam = 1, LParam = 2\<rparr>),
                  (1200, Quits 7)]" test_handler]
        MessageLoop_terminal_conditions
          [of "\<lparr>HWnd = 0x1234, Message = 0x0400, WParam = 1, LParam = 2\<rparr>"
              "loop_state 1100 0 1 [(1200, Quits 7)]" test_handler]
        MessageLoop_terminal_conditions
          [of "\<lparr>HWnd = 0, Message = 0, WParam = 0, LParam = 0\<rparr>"
              "loop_state 1000 0 0 [(1100, Fails 5), (1200, Quits 7)]" test_handler]
  by (simp add: loop_state_message loop_state_quit loop_state_error loop_state_dispatch)

section \<open>The modal dialog: properties\<close>

lemmas os_defs = GetLastError_def getModuleHandleCurrentProcess_def UTF16PtrFromString_def
  sys_RegisterClassExW_def registerClassExW_def sys_CreateWindowExW_def CreateWindowExW_def
  GetWindowTextW_def PostMessageW_def IsWindowW_def GetTickCount_def ShowWindowW_def SetFocus_def
  CreateFontW_def SetWindowFontW_def sys_GetMessageW_def GetMessageW_def TranslateMessage_def
  DefWindowProcW_def callWindowProc_def DispatchMessageW_def sys_remove_window_def sys_goes_with_def DestroyWindow_def

lemmas dlg_defs = setDialogWndProc_def getDialogWndProc_def dialogGlobalWndProc_def
  globalWndProc_def getWndProc_def deleteWndProc_def
  globals_of_def callGoFunc_def twoTextProc_def invoke_nested_def invoke_dialog_def
  createControls_def applyFont_def runModal_def TwoTextInputDialog_def

lemmas scen_defs = os_boot_def dialog_wcx_def package_init_def scenario_def idle_procs_def

lemmas eval_defs = os_defs dlg_defs scen_defs wm_defs modalLoop.simps Let_def dialog_handles_def
  main_window_def setWndProc_def stale_entry_def

text \<open>
  The closure reaches its \<open>DestroyWindow\<close> on \<open>WM_CLOSE\<close> only, so the call the
  system makes from inside \<open>DestroyWindow\<close> (\<open>invoke_nested\<close>) runs the same code as
  the closure itself.
\<close>

lemma twoTextProc_destroy_only_on_close:
  "msg \<noteq> WM_CLOSE \<Longrightarrow>
     twoTextProc d e1 e2 hwnd msg wParam lParam st = twoTextProc d' e1 e2 hwnd msg wParam lParam st"
  by (simp add: twoTextProc_def)

text \<open>What creating the windows leaves alone.\<close>

lemma CreateWindowExW_frame:
  "CreateWindowExW c n p g = (r, g') \<Longrightarrow>
     wndProcByHWND g' = wndProcByHWND g \<and> dialogWndProcs g' = dialogWndProcs g"
  by (auto simp: CreateWindowExW_def Let_def split: option.splits prod.splits if_splits)

lemma createControls_frame:
  "createControls l1 l2 d1 d2 h g = (r, g') \<Longrightarrow>
     wndProcByHWND g' = wndProcByHWND g \<and> dialogWndProcs g' = dialogWndProcs g"
  unfolding createControls_def Let_def
  by (auto split: prod.splits dest!: CreateWindowExW_frame)

lemma applyFont_id: "applyFont c g = g"
  by (cases c) (simp add: applyFont_def SetWindowFontW_def Let_def split: prod.splits)

lemma runModal_restores:
  "runModal procs h e1 e2 ok g = Some (ret, g') \<Longrightarrow> dialogWndProcs g' h = dialogWndProcs g h"
  by (auto simp: runModal_def setDialogWndProc_def globals_of_def Let_def
      split: option.splits prod.splits if_splits)

text \<open>
  Claim C5. When a dialog call returns, by whatever path, the dialog table holds for the
  handle of the dialog window what it held when the call began: the procedure registered
  before, or no entry when there was none. The handle is the one that the creation of the
  dialog window returns.
\<close>

theorem TwoTextInputDialog_restores_dialog_proc:
  assumes "TwoTextInputDialog procs title label1 label2 defaultValue1 defaultValue2 g = Some (ret, g')"
      and "dialogHWnd = fst (fst (CreateWindowExW ''dialog_input'' title 0 g))"
  shows "getDialogWndProc dialogHWnd g' = getDialogWndProc dialogHWnd g"
proof -
  obtain h e g1 where cw: "CreateWindowExW ''dialog_input'' title 0 g = ((h, e), g1)"
    by (metis prod.collapse)
  with assms(2) have h: "dialogHWnd = h" by simp
  from cw have fr: "dialogWndProcs g1 = dialogWndProcs g"
    by (simp add: CreateWindowExW_frame)
  show ?thesis
  proof (cases "snd (getModuleHandleCurrentProcess g) = None \<and> e = None")
    case False
    with assms(1) cw fr show ?thesis
      by (auto simp: TwoTextInputDialog_def getDialogWndProc_def Let_def split: prod.splits if_splits)
  next
    case True
    obtain c g2 where cc: "createControls label1 label2 defaultValue1 defaultValue2 h g1 = (c, g2)"
      by (metis prod.collapse)
    then have fr2: "dialogWndProcs g2 = dialogWndProcs g1"
      by (simp add: createControls_frame)
    obtain l1 ed1 l2 ed2 ok ca where c: "c = (l1, ed1, l2, ed2, ok, ca)"
      by (metis prod.collapse)
    from assms(1) True cw cc c have "runModal procs h ed1 ed2 ok g2 = Some (ret, g')"
      by (auto simp: TwoTextInputDialog_def Let_def applyFont_id split: prod.splits)
    from runModal_restores [OF this] fr fr2 h show ?thesis
      by (simp add: getDialogWndProc_def)
  qed
qed

text \<open>
  A dialog that is cancelled, on a package whose table still has a procedure for the
  handle the dialog window gets: that procedure is back in the table afterwards.
\<close>

lemma ev_cancel: "\<exists>g'. TwoTextInputDialog idle_procs ''t'' ''a'' ''b'' ''x'' ''y''
      (stale_entry [(2000, Arrives \<lparr>HWnd = 0x100, Message = WM_COMMAND, WParam = 2, LParam = 0\<rparr>)])
      = Some (([], [], True, None), g')"
  by (simp add: os_defs dlg_defs scen_defs wm_defs modalLoop.simps Let_def stale_entry_def dialog_handles_def)

theorem TwoTextInputDialog_restores_dialog_proc_witness:
  "\<exists>ret g'. TwoTextInputDialog idle_procs ''t'' ''a'' ''b'' ''x'' ''y''
      (stale_entry [(2000, Arrives \<lparr>HWnd = 0x100, Message = WM_COMMAND, WParam = 2, LParam = 0\<rparr>)])
      = Some (ret, g')
    \<and> getDialogWndProc 0x100 (stale_entry [(2000, Arrives \<lparr>HWnd = 0x100, Message = WM_COMMAND, WParam = 2, LParam = 0\<rparr>)]) = Some (GoFunc 7)
    \<and> getDialogWndProc 0x100 g' = Some (GoFunc 7)"
proof -
  let ?g = "stale_entry [(2000, Arrives \<lparr>HWnd = 0x100, Message = WM_COMMAND, WParam = 2, LParam = 0\<rparr>)]"
  from ev_cancel obtain g' where run:
    "TwoTextInputDialog idle_procs ''t'' ''a'' ''b'' ''x'' ''y'' ?g = Some (([], [], True, None), g')"
    by blast
  have h: "0x100 = fst (fst (CreateWindowExW ''dialog_input'' ''t'' 0 ?g))"
    by (simp add: os_defs scen_defs stale_entry_def dialog_handles_def Let_def)
  have before: "getDialogWndProc 0x100 ?g = Some (GoFunc 7)"
    by (simp add: getDialogWndProc_def stale_entry_def)
  from TwoTextInputDialog_restores_dialog_proc [OF run h] before run show ?thesis by auto
qed

text \<open>A creation that fails creates no window and touches no queue.\<close>

lemma CreateWindowExW_failure:
  assumes "CreateWindowExW c n p g = ((h, Some e), g1)"
  shows "os_windows (os g1) = os_windows (os g) \<and> os_posted (os g1) = os_posted (os g)
         \<and> os_feed (os g1) = os_feed (os g) \<and> os_free (os g1) = os_free (os g)"
  using assms
  by (auto simp: CreateWindowExW_def sys_CreateWindowExW_def Let_def
      split: option.splits prod.splits if_splits list.splits)

text \<open>
  Claim C4, as the code has it. When the creation of the dialog window fails, the call
  returns the error (wrapped) without a retrieval from the queue, and no window has been
  created; the tables are as before. When the dialog window has been created, a call
  that returns returns no error, whatever became of the six controls: their creation
  errors are dropped.
\<close>

theorem TwoTextInputDialog_creation_failure:
  assumes "getModuleHandleCurrentProcess g = (hInstance, None)"
      and "CreateWindowExW ''dialog_input'' title 0 g = ((dialogHWnd, err), g1)"
  shows "(err \<noteq> None \<longrightarrow>
            TwoTextInputDialog procs title label1 label2 defaultValue1 defaultValue2 g =
              Some (([], [], False, Some (Wrapped ''failed to create dialog'' err)), g1)
            \<and> os_windows (os g1) = os_windows (os g)
            \<and> os_posted (os g1) = os_posted (os g) \<and> os_feed (os g1) = os_feed (os g)
            \<and> wndProcByHWND g1 = wndProcByHWND g \<and> dialogWndProcs g1 = dialogWndProcs g)
       \<and> (err = None \<longrightarrow>
            (\<forall>res g'. TwoTextInputDialog procs title label1 label2 defaultValue1 defaultValue2 g =
                        Some (res, g') \<longrightarrow> snd (snd (snd res)) = None))"
proof (intro conjI impI allI)
  assume e: "err \<noteq> None"
  then obtain e' where e': "err = Some e'" by blast
  from e assms show "TwoTextInputDialog procs title label1 label2 defaultValue1 defaultValue2 g =
              Some (([], [], False, Some (Wrapped ''failed to create dialog'' err)), g1)"
    by (simp add: TwoTextInputDialog_def)
  from assms(2) e' CreateWindowExW_failure [of "''dialog_input''" title 0 g dialogHWnd e' g1]
  show "os_windows (os g1) = os_windows (os g)" "os_posted (os g1) = os_posted (os g)"
    "os_feed (os g1) = os_feed (os g)"
    by simp_all
  from assms(2) CreateWindowExW_frame [of "''dialog_input''" title 0 g "(dialogHWnd, err)" g1]
  show "wndProcByHWND g1 = wndProcByHWND g" "dialogWndProcs g1 = dialogWndProcs g"
    by simp_all
next
  fix res g'
  assume e: "err = None"
    and run: "TwoTextInputDialog procs title label1 label2 defaultValue1 defaultValue2 g = Some (res, g')"
  obtain c g2 where cc: "createControls label1 label2 defaultValue1 defaultValue2 dialogHWnd g1 = (c, g2)"
    by (metis prod.collapse)
  obtain l1 ed1 l2 ed2 ok ca where c: "c = (l1, ed1, l2, ed2, ok, ca)"
    by (metis prod.collapse)
  from run e assms cc c have "runModal procs dialogHWnd ed1 ed2 ok g2 = Some (res, g')"
    by (simp add: TwoTextInputDialog_def Let_def applyFont_id)
  then show "snd (snd (snd res)) = None"
    by (auto simp: runModal_def Let_def split: option.splits prod.splits)
qed

text \<open>
  No handle left: the dialog window cannot be created and the call returns the error.
  One handle left: the dialog window is created, and the call, closed by its close
  control, returns no error.
\<close>

lemma ev_one_handle:
  "\<exists>g'. TwoTextInputDialog idle_procs ''t'' ''a'' ''b'' ''x'' ''y''
      (scenario [0x100]
         [(2000, Arrives \<lparr>HWnd = 0x100, Message = WM_CLOSE, WParam = 0, LParam = 0\<rparr>)])
    = Some (([], [], False, None), g')"
  by (simp add: eval_defs)

theorem TwoTextInputDialog_creation_failure_witness:
  "TwoTextInputDialog idle_procs ''t'' ''a'' ''b'' ''x'' ''y'' (scenario [] []) =
     Some (([], [], False, Some (Wrapped ''failed to create dialog'' (Some (Errno 1158)))),
           (scenario [] [])\<lparr>os := (os (scenario [] []))\<lparr>os_last_error := 1158\<rparr>\<rparr>)
   \<and> (\<exists>res g'. TwoTextInputDialog idle_procs ''t'' ''a'' ''b'' ''x'' ''y''
          (scenario [0x100]
             [(2000, Arrives \<lparr>HWnd = 0x100, Message = WM_CLOSE, WParam = 0, LParam = 0\<rparr>)])
        = Some (res, g') \<and> snd (snd (snd res)) = None)"
proof
  have m: "getModuleHandleCurrentProcess (scenario [] []) = (0x400000, None)"
    by (simp add: eval_defs)
  have c: "CreateWindowExW ''dialog_input'' ''t'' 0 (scenario [] []) =
             ((0, Some (Errno 1158)),
              (scenario [] [])\<lparr>os := (os (scenario [] []))\<lparr>os_last_error := 1158\<rparr>\<rparr>)"
    by (simp add: eval_defs)
  from TwoTextInputDialog_creation_failure [OF m c, of idle_procs "''a''" "''b''" "''x''" "''y''"]
  show "TwoTextInputDialog idle_procs ''t'' ''a'' ''b'' ''x'' ''y'' (scenario [] []) =
     Some (([], [], False, Some (Wrapped ''failed to create dialog'' (Some (Errno 1158)))),
           (scenario [] [])\<lparr>os := (os (scenario [] []))\<lparr>os_last_error := 1158\<rparr>\<rparr>)"
    by simp
next
  let ?g = "scenario [0x100]
              [(2000, Arrives \<lparr>HWnd = 0x100, Message = WM_CLOSE, WParam = 0, LParam = 0\<rparr>)]"
  from ev_one_handle obtain res g' where run:
    "TwoTextInputDialog idle_procs ''t'' ''a'' ''b'' ''x'' ''y'' ?g = Some (res, g')"
    by blast
  have m: "getModuleHandleCurrentProcess ?g = (0x400000, None)"
    by (simp add: eval_defs)
  have "fst (CreateWindowExW ''dialog_input'' ''t'' 0 ?g) = (0x100, None)"
    by (simp add: eval_defs)
  then have c: "CreateWindowExW ''dialog_input'' ''t'' 0 ?g =
                  ((0x100, None), snd (CreateWindowExW ''dialog_input'' ''t'' 0 ?g))"
    by (metis prod.collapse)
  from TwoTextInputDialog_creation_failure [OF m c, of idle_procs "''a''" "''b''" "''x''" "''y''"] run
  have "snd (snd (snd res)) = None" by blast
  with run show "\<exists>res g'. TwoTextInputDialog idle_procs ''t'' ''a'' ''b'' ''x'' ''y'' ?g
        = Some (res, g') \<and> snd (snd (snd res)) = None"
    by blast
qed

text \<open>
  Claim C4, as stated, fails: with one handle left the dialog window is created, the
  creation of the first control (and of every other) fails with code 1158, and the call
  still enters its loop, takes the message from the feed and returns no error.
\<close>

theorem TwoTextInputDialog_ignores_control_failure:
  "fst (CreateWindowExW ''dialog_input'' ''t'' 0
          (scenario [0x100] [(2000, Arrives \<lparr>HWnd = 0x100, Message = WM_CLOSE, WParam = 0, LParam = 0\<rparr>)]))
     = (0x100, None)
   \<and> fst (CreateWindowExW ''STATIC'' ''a'' 0x100
        (snd (CreateWindowExW ''dialog_input'' ''t'' 0
          (scenario [0x100] [(2000, Arrives \<lparr>HWnd = 0x100, Message = WM_CLOSE, WParam = 0, LParam = 0\<rparr>)]))))
     = (0, Some (Errno 1158))
   \<and> map_option fst (TwoTextInputDialog idle_procs ''t'' ''a'' ''b'' ''x'' ''y''
          (scenario [0x100] [(2000, Arrives \<lparr>HWnd = 0x100, Message = WM_CLOSE, WParam = 0, LParam = 0\<rparr>)]))
     = Some ([], [], False, None)
   \<and> map_option (os_feed \<circ> os \<circ> snd) (TwoTextInputDialog idle_procs ''t'' ''a'' ''b'' ''x'' ''y''
          (scenario [0x100] [(2000, Arrives \<lparr>HWnd = 0x100, Message = WM_CLOSE, WParam = 0, LParam = 0\<rparr>)]))
     = Some []"
  by (simp add: eval_defs)

text \<open>
  Claim C3 at six inputs. The close control (\<open>WM_CLOSE\<close> for the dialog window): the
  call returns cancelled = false. The timeout (one paint message, 39 seconds after the
  loop began): cancelled = false. The quit message and a failed retrieval: cancelled =
  false. The cancel button (\<open>WM_COMMAND\<close> with \<open>IDCANCEL\<close>): cancelled = true. The
  error is nil each time. With no message at all the call does not return: the timeout
  is looked at between two retrievals only.
\<close>

theorem TwoTextInputDialog_close_timeout_not_cancelled:
  "map_option fst (TwoTextInputDialog idle_procs ''t'' ''a'' ''b'' ''x'' ''y''
      (scenario dialog_handles
         [(2000, Arrives \<lparr>HWnd = 0x100, Message = WM_CLOSE, WParam = 0, LParam = 0\<rparr>)]))
     = Some ([], [], False, None)
   \<and> map_option fst (TwoTextInputDialog idle_procs ''t'' ''a'' ''b'' ''x'' ''y''
      (scenario dialog_handles
         [(40000, Arrives \<lparr>HWnd = 0x100, Message = 0x000F, WParam = 0, LParam = 0\<rparr>)]))
     = Some ([], [], False, None)
   \<and> map_option fst (TwoTextInputDialog idle_procs ''t'' ''a'' ''b'' ''x'' ''y''
      (scenario dialog_handles [(2000, Quits 0)]))
     = Some ([], [], False, None)
   \<and> map_option fst (TwoTextInputDialog idle_procs ''t'' ''a'' ''b'' ''x'' ''y''
      (scenario dialog_handles [(2000, Fails 5)]))
     = Some ([], [], False, None)
   \<and> map_option fst (TwoTextInputDialog idle_procs ''t'' ''a'' ''b'' ''x'' ''y''
      (scenario dialog_handles
         [(2000, Arrives \<lparr>HWnd = 0x100, Message = WM_COMMAND, WParam = 2, LParam = 0\<rparr>)]))
     = Some ([], [], True, None)
   \<and> TwoTextInputDialog idle_procs ''t'' ''a'' ''b'' ''x'' ''y'' (scenario dialog_handles [])
     = None"
  by (simp add: eval_defs)



















end
